theory Spec2Isabelle
  imports Complex_Main
begin

section \<open>Localized text tables\<close>

text \<open>
  The module keeps every user-facing string in the dictionary \<open>TEXTS\<close>, keyed by the
  interface language code and then by the groups \<open>prompts\<close>, \<open>errors\<close> and \<open>ui\<close>.
  Each group is a record here. Of the \<open>ui\<close> group the record keeps the keys that the
  pipeline functions read (\<open>_render_results\<close>, \<open>add_recording_to_queue\<close>,
  \<open>transcribe_many\<close>); the labels that only the widget wiring reads are left out.
\<close>

record prompts =
  summary :: string
  bullets :: string

record errors =
  ffmpeg_not_found :: string
  wav_conversion_failed :: string
  file_not_found :: string
  transcription_error :: string

record ui =
  empty_results :: string
  result_time :: string
  pane_transcription_title :: string
  pane_summary_title :: string
  pane_bullets_title :: string
  copy_label :: string
  copy_done :: string
  copy_transcription_aria :: string
  copy_summary_aria :: string
  copy_bullets_aria :: string
  transcription_empty :: string
  summary_placeholder :: string
  bullets_placeholder :: string
  default_audio_name :: string
  record_added :: string
  record_missing :: string

record texts =
  prompts :: prompts
  errors :: errors
  ui :: ui

definition LANG_DEFAULT :: string where
  "LANG_DEFAULT = ''it''"

definition texts_it :: texts where
  "texts_it = \<lparr>
     prompts = \<lparr>
       summary =
         ''Fai un riassunto schematico del testo seguente. '' @
         ''Includi solo gli elementi chiave in un testo sintetico. '' @
         ''Non usare elenchi puntati e non aggiungere testo extra.'' @ [CHR 0x0A, CHR 0x0A] @
         ''Testo da riassumere:'' @ [CHR 0x0A] @ ''{content}'',
       bullets =
         ''Crea una lista puntata con gli elementi essenziali del testo seguente. '' @
         ''Frasi brevi, senza testo extra.'' @ [CHR 0x0A, CHR 0x0A] @
         ''Testo:'' @ [CHR 0x0A] @ ''{content}'' \<rparr>,
     errors = \<lparr>
       ffmpeg_not_found = ''ffmpeg non trovato per la conversione in WAV.'',
       wav_conversion_failed = ''Conversione in WAV non riuscita.'',
       file_not_found = ''File non trovato.'',
       transcription_error = ''Errore durante conversione/trascrizione: {error}'' \<rparr>,
     ui = \<lparr>
       empty_results = ''Nessun risultato da mostrare.'',
       result_time = ''Tempo: {seconds:.2f}s'',
       pane_transcription_title = ''Trascrizione'',
       pane_summary_title = ''Riassunto'',
       pane_bullets_title = ''Lista puntata'',
       copy_label = ''Copia'',
       copy_done = ''Copiato'',
       copy_transcription_aria = ''Copia trascrizione'',
       copy_summary_aria = ''Copia riassunto'',
       copy_bullets_aria = ''Copia lista puntata'',
       transcription_empty = ''Trascrizione vuota.'',
       summary_placeholder = ''Riassunto non disponibile.'',
       bullets_placeholder = ''Lista puntata non disponibile.'',
       default_audio_name = ''audio'',
       record_added = ''Registrazione aggiunta alla coda: {name}'',
       record_missing = ''Nessuna registrazione da aggiungere.'' \<rparr> \<rparr>"

definition texts_en :: texts where
  "texts_en = \<lparr>
     prompts = \<lparr>
       summary =
         ''Provide a structured summary of the following text. '' @
         ''Include only the key elements in a concise text. '' @
         ''Do not use bullet points and do not add extra text.'' @ [CHR 0x0A, CHR 0x0A] @
         ''Text to summarize:'' @ [CHR 0x0A] @ ''{content}'',
       bullets =
         ''Create a bullet list with the essential elements of the following text. '' @
         ''Short sentences, without extra text.'' @ [CHR 0x0A, CHR 0x0A] @
         ''Text:'' @ [CHR 0x0A] @ ''{content}'' \<rparr>,
     errors = \<lparr>
       ffmpeg_not_found = ''ffmpeg not found for WAV conversion.'',
       wav_conversion_failed = ''WAV conversion failed.'',
       file_not_found = ''File not found.'',
       transcription_error = ''Error during conversion/transcription: {error}'' \<rparr>,
     ui = \<lparr>
       empty_results = ''No results to display.'',
       result_time = ''Time: {seconds:.2f}s'',
       pane_transcription_title = ''Transcription'',
       pane_summary_title = ''Summary'',
       pane_bullets_title = ''Bullet list'',
       copy_label = ''Copy'',
       copy_done = ''Copied'',
       copy_transcription_aria = ''Copy transcription'',
       copy_summary_aria = ''Copy summary'',
       copy_bullets_aria = ''Copy bullet list'',
       transcription_empty = ''Empty transcription.'',
       summary_placeholder = ''Summary not available.'',
       bullets_placeholder = ''Bullet list not available.'',
       default_audio_name = ''audio'',
       record_added = ''Recording added to the queue: {name}'',
       record_missing = ''No recording to add.'' \<rparr> \<rparr>"

text \<open>\<open>TEXTS\<close> is a dictionary with the two keys \<open>"it"\<close> and \<open>"en"\<close>.\<close>

definition TEXTS :: "(string \<times> texts) list" where
  "TEXTS = [(''it'', texts_it), (''en'', texts_en)]"

text \<open>
  \<open>TEXTS.get(lang, TEXTS[LANG_DEFAULT])\<close>: the default argument is itself a subscript,
  which would raise \<open>KeyError\<close> on a missing default language; the key \<open>"it"\<close> is
  present, so the subscript is the Italian table.
\<close>

definition get_text :: "string \<Rightarrow> texts" where
  "get_text lang =
     (case map_of TEXTS lang of
        Some t \<Rightarrow> t
      | None \<Rightarrow> (case map_of TEXTS LANG_DEFAULT of Some d \<Rightarrow> d | None \<Rightarrow> texts_it))"

definition asr_language :: "string \<Rightarrow> string" where
  "asr_language lang = (if lang = ''it'' then ''italian'' else ''english'')"

section \<open>Strings and paths\<close>

text \<open>
  \<open>template.format(field=val)\<close> for the templates of \<open>TEXTS\<close>, each of which has named
  replacement fields and no escaped braces: every occurrence of \<open>{field}\<close> is replaced by
  \<open>val\<close>, and the inserted text is not scanned again. The counter skips the rest of a
  replacement field that has just been recognised.
\<close>

fun starts_with :: "string \<Rightarrow> string \<Rightarrow> bool" where
  "starts_with [] s = True"
| "starts_with (p # ps) [] = False"
| "starts_with (p # ps) (c # cs) = (p = c \<and> starts_with ps cs)"

fun format_from :: "string \<Rightarrow> string \<Rightarrow> nat \<Rightarrow> string \<Rightarrow> string" where
  "format_from field val k [] = []"
| "format_from field val (Suc k) (c # cs) = format_from field val k cs"
| "format_from field val 0 (c # cs) =
     (if starts_with (''{'' @ field @ ''}'') (c # cs)
      then val @ format_from field val (Suc (length field)) cs
      else c # format_from field val 0 cs)"

definition format_field :: "string \<Rightarrow> string \<Rightarrow> string \<Rightarrow> string" where
  "format_field field val template = format_from field val 0 template"

text \<open>
  \<open>str.strip()\<close> removes leading and trailing whitespace; on the byte strings of this
  model the whitespace characters are the ASCII ones that \<open>str.isspace\<close> accepts.
\<close>

definition is_space :: "char \<Rightarrow> bool" where
  "is_space c = (c \<in> set [CHR 0x09, CHR 0x0A, CHR 0x0B, CHR 0x0C, CHR 0x0D,
                            CHR 0x1C, CHR 0x1D, CHR 0x1E, CHR 0x1F, CHR 0x20])"

definition strip :: "string \<Rightarrow> string" where
  "strip s = rev (dropWhile is_space (rev (dropWhile is_space s)))"

text \<open>\<open>os.path.basename\<close> (POSIX): what follows the last slash.\<close>

definition basename :: "string \<Rightarrow> string" where
  "basename p = rev (takeWhile (\<lambda>c. c \<noteq> CHR ''/'') (rev p))"

text \<open>
  The extension that \<open>os.path.splitext\<close> returns: from the last dot of the base name on,
  if some character other than a dot comes before that dot in the base name; empty
  otherwise.
\<close>

definition splitext_ext :: "string \<Rightarrow> string" where
  "splitext_ext p =
     (let b = basename p;
          after = rev (takeWhile (\<lambda>c. c \<noteq> CHR ''.'') (rev b));
          stem = take (length b - length after - 1) b
      in if CHR ''.'' \<in> set b \<and> list_ex (\<lambda>c. c \<noteq> CHR ''.'') stem
         then CHR ''.'' # after else [])"

definition lower_char :: "char \<Rightarrow> char" where
  "lower_char c =
     (case map_of (zip ''ABCDEFGHIJKLMNOPQRSTUVWXYZ'' ''abcdefghijklmnopqrstuvwxyz'') c of
        Some d \<Rightarrow> d
      | None \<Rightarrow> c)"

definition lower :: "string \<Rightarrow> string" where
  "lower s = map lower_char s"

definition needs_wav_conversion :: "string \<Rightarrow> bool" where
  "needs_wav_conversion filepath = (lower (splitext_ext filepath) \<noteq> ''.wav'')"

section \<open>Values, exceptions and the outside world\<close>

text \<open>
  A result is a Python dictionary with string keys whose values are strings or a float;
  it is an association list in insertion order. The elapsed time is a real number.
\<close>

datatype pyval = PStr string | PFloat real

type_synonym result = "(string \<times> pyval) list"

text \<open>
  The exception classes that the handlers of the module tell apart, each carrying the
  text that \<open>str(exc)\<close> gives; every other subclass of \<open>Exception\<close> is
  \<open>OtherException\<close>.
\<close>

datatype py_exn =
    FileNotFoundError string
  | CalledProcessError string
  | RuntimeError string
  | OSError string
  | URLError string
  | HTTPError string
  | JSONDecodeError string
  | OtherException string

fun exn_str :: "py_exn \<Rightarrow> string" where
  "exn_str (FileNotFoundError m) = m"
| "exn_str (CalledProcessError m) = m"
| "exn_str (RuntimeError m) = m"
| "exn_str (OSError m) = m"
| "exn_str (URLError m) = m"
| "exn_str (HTTPError m) = m"
| "exn_str (JSONDecodeError m) = m"
| "exn_str (OtherException m) = m"

text \<open>What \<open>json.loads\<close> returns: an object, a string, or some other JSON value.\<close>

datatype json = JObject "(string \<times> json) list" | JString string | JOther

text \<open>
  The calls that leave the process are recorded in order: the creation of a temporary
  file, the \<open>ffmpeg\<close> subprocess (input, output), the speech-recognition pipeline
  (path, language hint) and the text-generation endpoint (prompt).
\<close>

datatype call =
    Mkstemp string
  | Ffmpeg string string
  | Asr string string
  | Ollama string

text \<open>
  The state that the functions read and change: the paths that exist on the filesystem,
  the reading of \<open>time.perf_counter\<close>, the calls made so far, and the number of
  temporary files created so far. The clock advances during the calls to the
  speech-recognition pipeline and to the text-generation endpoint, by the duration the
  call takes.
\<close>

record world =
  disk :: "string set"
  clock :: real
  calls :: "call list"
  tmp_seq :: nat

text \<open>
  The collaborators outside the module, each a function of the state at the call and of the
  arguments:
  \<^item> \<open>tmp_dir\<close>, \<open>tmp_random\<close>: the directory and the random infix that
    \<open>tempfile.NamedTemporaryFile\<close> uses for its next name;
  \<^item> \<open>run_ffmpeg\<close>: \<open>subprocess.run\<close> on the \<open>ffmpeg\<close> command line: the exception
    raised, if any, and whether the output file exists afterwards;
  \<^item> \<open>run_asr\<close>: the speech-recognition pipeline: an exception or the \<open>text\<close> entry of
    its result (absent or a string), and the duration of the call;
  \<^item> \<open>post_generate\<close>: \<open>urlopen\<close>, \<open>read\<close>, \<open>decode\<close> and \<open>json.loads\<close> on the
    endpoint: an exception or the decoded value, and the duration of the call;
  \<^item> \<open>remove_error\<close>: the message of the \<open>OSError\<close> that \<open>os.remove\<close> raises on a
    path, if it raises;
  \<^item> \<open>format_seconds\<close>: the float format \<open>.2f\<close>.
\<close>

record env =
  tmp_dir :: string
  tmp_random :: "nat \<Rightarrow> string"
  run_ffmpeg :: "world \<Rightarrow> string \<Rightarrow> string \<Rightarrow> py_exn option \<times> bool"
  run_asr :: "world \<Rightarrow> string \<Rightarrow> string \<Rightarrow> (py_exn + string option) \<times> real"
  post_generate :: "world \<Rightarrow> string \<Rightarrow> (py_exn + json) \<times> real"
  remove_error :: "world \<Rightarrow> string \<Rightarrow> string option"
  format_seconds :: "real \<Rightarrow> string"

section \<open>Enrichment invokers\<close>

text \<open>
  \<open>_ollama_summary\<close> and \<open>_ollama_bullets\<close> differ in the prompt only. The request is
  sent inside \<open>try\<close>; \<open>URLError\<close>, \<open>HTTPError\<close> and \<open>JSONDecodeError\<close> are caught and
  give the empty string, any other exception leaves the function. \<open>parsed.get\<close> raises
  \<open>AttributeError\<close> when the decoded value is not an object, and \<open>.strip()\<close> does when
  the \<open>response\<close> entry is not a string.
\<close>

definition ollama_generate :: "env \<Rightarrow> world \<Rightarrow> string \<Rightarrow> world \<times> (py_exn + string)" where
  "ollama_generate e w prompt =
     (case post_generate e w prompt of (r, d) \<Rightarrow>
        let w' = w\<lparr>clock := clock w + d, calls := calls w @ [Ollama prompt]\<rparr>
        in (case r of
              Inl (URLError m) \<Rightarrow> (w', Inr [])
            | Inl (HTTPError m) \<Rightarrow> (w', Inr [])
            | Inl (JSONDecodeError m) \<Rightarrow> (w', Inr [])
            | Inl exn \<Rightarrow> (w', Inl exn)
            | Inr (JObject kv) \<Rightarrow>
                (case map_of kv ''response'' of
                   None \<Rightarrow> (w', Inr (strip []))
                 | Some (JString s) \<Rightarrow> (w', Inr (strip s))
                 | Some v \<Rightarrow> (w', Inl (OtherException ''AttributeError'')))
            | Inr v \<Rightarrow> (w', Inl (OtherException ''AttributeError''))))"

definition ollama_summary :: "env \<Rightarrow> world \<Rightarrow> string \<Rightarrow> string \<Rightarrow> world \<times> (py_exn + string)" where
  "ollama_summary e w text lang =
     ollama_generate e w (format_field ''content'' text (summary (prompts (get_text lang))))"

definition ollama_bullets :: "env \<Rightarrow> world \<Rightarrow> string \<Rightarrow> string \<Rightarrow> world \<times> (py_exn + string)" where
  "ollama_bullets e w text lang =
     ollama_generate e w (format_field ''content'' text (bullets (prompts (get_text lang))))"

section \<open>Transcription invoker\<close>

text \<open>
  \<open>_transcribe_file\<close> reads the clock, calls the speech-recognition pipeline, then the
  two enrichment invokers when their flag is set and the text is not empty, reads the
  clock again and builds the result. \<open>display_name\<close> is \<open>None\<close> or a string; an empty one
  counts as absent.
\<close>

definition transcribe_file ::
  "env \<Rightarrow> world \<Rightarrow> string \<Rightarrow> bool \<Rightarrow> bool \<Rightarrow> string \<Rightarrow> string option \<Rightarrow> world \<times> (py_exn + result)" where
  "transcribe_file e w filepath summarize bullet_list lang display_name =
     (let start = clock w in
      case run_asr e w filepath (asr_language lang) of (r, d) \<Rightarrow>
        let w1 = w\<lparr>clock := clock w + d,
                   calls := calls w @ [Asr filepath (asr_language lang)]\<rparr>
        in (case r of
              Inl exn \<Rightarrow> (w1, Inl exn)
            | Inr res \<Rightarrow>
               let text = strip (case res of None \<Rightarrow> [] | Some t \<Rightarrow> t) in
               (case (if summarize \<and> text \<noteq> [] then ollama_summary e w1 text lang
                      else (w1, Inr [])) of
                 (w2, Inl exn) \<Rightarrow> (w2, Inl exn)
               | (w2, Inr summary_text) \<Rightarrow>
                   (case (if bullet_list \<and> text \<noteq> [] then ollama_bullets e w2 text lang
                          else (w2, Inr [])) of
                      (w3, Inl exn) \<Rightarrow> (w3, Inl exn)
                    | (w3, Inr bullets_text) \<Rightarrow>
                        let elapsed = clock w3 - start in
                        (w3, Inr [(''file'', PStr (case display_name of
                                                    None \<Rightarrow> basename filepath
                                                  | Some n \<Rightarrow> if n \<noteq> [] then n
                                                              else basename filepath)),
                                  (''text'', PStr text),
                                  (''summary'', PStr summary_text),
                                  (''bullets'', PStr bullets_text),
                                  (''seconds'', PFloat elapsed)])))))"

section \<open>Format converter\<close>

definition temp_name :: "env \<Rightarrow> nat \<Rightarrow> string" where
  "temp_name e n = tmp_dir e @ ''/'' @ ''whisper_tmp_'' @ tmp_random e n @ ''.wav''"

text \<open>
  The body of both handlers of \<open>_convert_to_temp_wav\<close>: remove the temporary file if it
  exists, then raise \<open>RuntimeError\<close> with the localized message. The removal is not
  guarded, so an \<open>OSError\<close> of \<open>os.remove\<close> leaves the handler in place of the
  \<open>RuntimeError\<close>.
\<close>

definition remove_and_raise :: "env \<Rightarrow> world \<Rightarrow> string \<Rightarrow> string \<Rightarrow> world \<times> (py_exn + string)" where
  "remove_and_raise e w name msg =
     (if name \<in> disk w then
        (case remove_error e w name of
           Some m \<Rightarrow> (w, Inl (OSError m))
         | None \<Rightarrow> (w\<lparr>disk := disk w - {name}\<rparr>, Inl (RuntimeError msg)))
      else (w, Inl (RuntimeError msg)))"

definition convert_to_temp_wav :: "env \<Rightarrow> world \<Rightarrow> string \<Rightarrow> string \<Rightarrow> world \<times> (py_exn + string)" where
  "convert_to_temp_wav e w filepath lang =
     (let errs = errors (get_text lang);
          name = temp_name e (tmp_seq w);
          w1 = w\<lparr>disk := insert name (disk w), tmp_seq := Suc (tmp_seq w),
                  calls := calls w @ [Mkstemp name]\<rparr>
      in case run_ffmpeg e w1 filepath name of (r, kept) \<Rightarrow>
           let w2 = w1\<lparr>disk := (if kept then disk w1 else disk w1 - {name}),
                        calls := calls w1 @ [Ffmpeg filepath name]\<rparr>
           in (case r of
                 None \<Rightarrow> (w2, Inr name)
               | Some (FileNotFoundError m) \<Rightarrow>
                   remove_and_raise e w2 name (ffmpeg_not_found errs)
               | Some (CalledProcessError m) \<Rightarrow>
                   remove_and_raise e w2 name (wav_conversion_failed errs)
               | Some exn \<Rightarrow> (w2, Inl exn)))"

section \<open>Result renderer\<close>

text \<open>\<open>html.escape\<close> with its default \<open>quote=True\<close>.\<close>

fun escape_char :: "char \<Rightarrow> string" where
  "escape_char c =
     (if c = CHR ''&'' then ''&amp;''
      else if c = CHR ''<'' then ''&lt;''
      else if c = CHR ''>'' then ''&gt;''
      else if c = CHR 0x22 then ''&quot;''
      else if c = CHR 0x27 then ''&#x27;''
      else [c])"

definition html_escape :: "string \<Rightarrow> string" where
  "html_escape s = concat (map escape_char s)"

text \<open>
  \<open>item.get(key, default)\<close> for the string entries and for \<open>seconds\<close>. The results that
  \<open>transcribe_many\<close> builds hold strings under the four string keys and a float under
  \<open>seconds\<close>; an entry of the other kind counts as absent here.
\<close>

definition get_str :: "result \<Rightarrow> string \<Rightarrow> string \<Rightarrow> string" where
  "get_str item key dflt = (case map_of item key of Some (PStr v) \<Rightarrow> v | _ \<Rightarrow> dflt)"

definition get_float :: "result \<Rightarrow> string \<Rightarrow> real \<Rightarrow> real" where
  "get_float item key dflt = (case map_of item key of Some (PFloat v) \<Rightarrow> v | _ \<Rightarrow> dflt)"

text \<open>
  The three panes of a card have one layout; \<open>raw\<close> is the unescaped text. An attribute
  value stands between two single quotes, written \<open>[CHR 0x27]\<close> where the quote ends a
  piece of the markup.
\<close>

definition render_pane :: "ui \<Rightarrow> string \<Rightarrow> string \<Rightarrow> string \<Rightarrow> string \<Rightarrow> string" where
  "render_pane u title aria raw placeholder =
     ''<div class='result-pane'>'' @
     ''<div class='pane-header'>'' @
     ''<div class='pane-title'>'' @ html_escape title @ ''</div>'' @
     ''<button class='copy-btn' type='button' data-copy='' @ [CHR 0x27] @
     html_escape raw @ [CHR 0x27] @ '' '' @
     ''data-copied-label='' @ [CHR 0x27] @ html_escape (copy_done u) @ [CHR 0x27] @ '' '' @
     ''aria-label='' @ [CHR 0x27] @ html_escape aria @ [CHR 0x27] @ '' '' @
     (if raw = [] then ''disabled'' else []) @ ''>'' @ html_escape (copy_label u) @
     ''</button>'' @
     ''</div>'' @
     ''<div class='pane-body'>'' @
     (if html_escape raw \<noteq> [] then html_escape raw else html_escape placeholder) @
     ''</div>'' @
     ''</div>''"

definition render_card :: "env \<Rightarrow> ui \<Rightarrow> bool \<Rightarrow> bool \<Rightarrow> result \<Rightarrow> string" where
  "render_card e u summarize_enabled bullets_enabled item =
     (let filename = html_escape (get_str item ''file'' (default_audio_name u));
          text_raw = get_str item ''text'' [];
          summary_raw = get_str item ''summary'' [];
          bullets_raw = get_str item ''bullets'' [];
          seconds = get_float item ''seconds'' 0;
          result_time_text =
            html_escape (format_field ''seconds:.2f'' (format_seconds e seconds) (result_time u));
          panes =
            [render_pane u (pane_transcription_title u) (copy_transcription_aria u)
               text_raw (transcription_empty u)] @
            (if summarize_enabled
             then [render_pane u (pane_summary_title u) (copy_summary_aria u)
                     summary_raw (summary_placeholder u)]
             else []) @
            (if bullets_enabled
             then [render_pane u (pane_bullets_title u) (copy_bullets_aria u)
                     bullets_raw (bullets_placeholder u)]
             else [])
      in ''<div class='result-card'>'' @
         ''<div class='result-header'>'' @
         ''<div class='result-title'>'' @ filename @ ''</div>'' @
         ''</div>'' @
         ''<div class='result-meta'>'' @ result_time_text @ ''</div>'' @
         ''<div class='result-body'>'' @
         concat panes @
         ''</div>'' @
         ''</div>'')"

definition render_results :: "env \<Rightarrow> result list \<Rightarrow> bool \<Rightarrow> bool \<Rightarrow> string \<Rightarrow> string" where
  "render_results e items summarize_enabled bullets_enabled lang =
     (let u = ui (get_text lang)
      in if items = [] then []
         else ''<div class='results-grid'>'' @
              concat (map (render_card e u summarize_enabled bullets_enabled) items) @
              ''</div>'')"

section \<open>Audio normalizer\<close>

text \<open>
  A recording and an upload entry are a string, a dictionary or something else (the
  recording may also be \<open>None\<close>). Of a dictionary only the entries whose value is a string
  matter; an entry that is absent, \<open>None\<close> or empty is falsy alike, so the dictionary is
  an association list of strings.
\<close>

datatype recording = RecNone | RecStr string | RecDict "(string \<times> string) list" | RecOther

datatype file_entry = EntryStr string | EntryDict "(string \<times> string) list" | EntryOther

fun first_truthy :: "(string \<times> string) list \<Rightarrow> string list \<Rightarrow> string option" where
  "first_truthy d [] = None"
| "first_truthy d (k # ks) =
     (case map_of d k of
        Some v \<Rightarrow> if v \<noteq> [] then Some v else first_truthy d ks
      | None \<Rightarrow> first_truthy d ks)"

fun extract_recording_path :: "recording \<Rightarrow> string option" where
  "extract_recording_path RecNone = None"
| "extract_recording_path (RecStr s) = Some s"
| "extract_recording_path (RecDict d) = first_truthy d [''path'', ''name'', ''file'']"
| "extract_recording_path RecOther = None"

fun normalize_entries :: "string list \<Rightarrow> file_entry list \<Rightarrow> string list" where
  "normalize_entries normalized [] = normalized"
| "normalize_entries normalized (EntryStr s # es) = normalize_entries (normalized @ [s]) es"
| "normalize_entries normalized (EntryDict d # es) =
     (case first_truthy d [''path'', ''name'', ''file''] of
        Some path \<Rightarrow> normalize_entries (normalized @ [path]) es
      | None \<Rightarrow> normalize_entries normalized es)"
| "normalize_entries normalized (EntryOther # es) = normalize_entries normalized es"

definition normalize_files :: "file_entry list option \<Rightarrow> string list" where
  "normalize_files files =
     (case files of None \<Rightarrow> [] | Some [] \<Rightarrow> [] | Some es \<Rightarrow> normalize_entries [] es)"

text \<open>
  \<open>add_recording_to_queue\<close> returns the updated list, the status message and a constant
  \<open>None\<close> that clears the recorder widget; the constant is left out.
\<close>

definition add_recording_to_queue ::
  "recording \<Rightarrow> file_entry list option \<Rightarrow> string \<Rightarrow> string list \<times> string" where
  "add_recording_to_queue rec files lang =
     (let u = ui (get_text lang) in
      case extract_recording_path rec of
        None \<Rightarrow> (normalize_files files, record_missing u)
      | Some recording_path \<Rightarrow>
          if recording_path = [] then (normalize_files files, record_missing u)
          else (normalize_files files @ [recording_path],
                format_field ''name'' (basename recording_path) (record_added u)))"

section \<open>Batch orchestrator\<close>

text \<open>
  One iteration of the loop of \<open>transcribe_many\<close>: the state before, the path, and the
  state after together with the result that the iteration appends. Every exception of
  the \<open>try\<close> block is a subclass of \<open>Exception\<close>, so the handler catches it; the
  \<open>finally\<close> block removes the temporary file if \<open>temp_wav\<close> was assigned and the file
  exists, and passes over an \<open>OSError\<close> of the removal. \<open>temp_wav\<close> is assigned only when
  \<open>_convert_to_temp_wav\<close> returns.
\<close>

definition process_file :: "env \<Rightarrow> bool \<Rightarrow> bool \<Rightarrow> string \<Rightarrow> world \<Rightarrow> string \<Rightarrow> world \<times> result" where
  "process_file e summarize bullet_list lang w filepath =
     (let u = ui (get_text lang);
          errs = errors (get_text lang)
      in if filepath = [] \<or> filepath \<notin> disk w then
           (w, [(''file'', PStr (basename (if filepath \<noteq> [] then filepath
                                            else default_audio_name u))),
                (''text'', PStr (file_not_found errs)),
                (''seconds'', PFloat 0)])
         else
           let original_name = basename filepath in
           case (if needs_wav_conversion filepath then
                   (case convert_to_temp_wav e w filepath lang of
                      (w1, Inl exn) \<Rightarrow> (w1, None, Inl exn)
                    | (w1, Inr tmp) \<Rightarrow>
                        (case transcribe_file e w1 tmp summarize bullet_list lang
                                (Some original_name) of
                           (w2, r) \<Rightarrow> (w2, Some tmp, r)))
                 else
                   (case transcribe_file e w filepath summarize bullet_list lang
                           (Some original_name) of
                      (w2, r) \<Rightarrow> (w2, None, r))) of
             (w2, temp_wav, r) \<Rightarrow>
               let res = (case r of
                            Inr item \<Rightarrow> item
                          | Inl exn \<Rightarrow>
                              [(''file'', PStr original_name),
                               (''text'', PStr (format_field ''error'' (exn_str exn)
                                                  (transcription_error errs))),
                               (''summary'', PStr []),
                               (''bullets'', PStr []),
                               (''seconds'', PFloat 0)]);
                   w3 = (case temp_wav of
                           None \<Rightarrow> w2
                         | Some t \<Rightarrow>
                             if t \<noteq> [] \<and> t \<in> disk w2 then
                               (case remove_error e w2 t of
                                  None \<Rightarrow> w2\<lparr>disk := disk w2 - {t}\<rparr>
                                | Some m \<Rightarrow> w2)
                             else w2)
               in (w3, res))"

fun run_files ::
  "env \<Rightarrow> bool \<Rightarrow> bool \<Rightarrow> string \<Rightarrow> world \<Rightarrow> result list \<Rightarrow> string list \<Rightarrow> world \<times> result list" where
  "run_files e summarize bullet_list lang w results [] = (w, results)"
| "run_files e summarize bullet_list lang w results (filepath # rest) =
     (case process_file e summarize bullet_list lang w filepath of
        (w', r) \<Rightarrow> run_files e summarize bullet_list lang w' (results @ [r]) rest)"

text \<open>
  \<open>transcribe_many\<close> takes \<open>None\<close> or a list of paths and returns the rendered results
  and the results; the state after the batch is returned with them.
\<close>

definition transcribe_many ::
  "env \<Rightarrow> world \<Rightarrow> string list option \<Rightarrow> bool \<Rightarrow> bool \<Rightarrow> string \<Rightarrow> world \<times> string \<times> result list" where
  "transcribe_many e w files summarize bullet_list lang =
     (case files of
        None \<Rightarrow> (w, render_results e [] summarize bullet_list lang, [])
      | Some [] \<Rightarrow> (w, render_results e [] summarize bullet_list lang, [])
      | Some fs \<Rightarrow>
          (case run_files e summarize bullet_list lang w [] fs of
             (w', results) \<Rightarrow>
               (w', render_results e results summarize bullet_list lang, results)))"

section \<open>Batches as sequences of iterations\<close>

text \<open>
  The list that \<open>transcribe_many\<close> iterates over (\<open>None\<close> counts as the empty list), and
  the state reached from \<open>w\<close> once the paths \<open>fs\<close> have been processed.
\<close>

definition paths_of :: "string list option \<Rightarrow> string list" where
  "paths_of files = (case files of None \<Rightarrow> [] | Some fs \<Rightarrow> fs)"

definition world_after :: "env \<Rightarrow> bool \<Rightarrow> bool \<Rightarrow> string \<Rightarrow> world \<Rightarrow> string list \<Rightarrow> world" where
  "world_after e summarize bullet_list lang w fs =
     fst (run_files e summarize bullet_list lang w [] fs)"

section \<open>Example environments\<close>

text \<open>
  A machine on which everything works: \<open>ffmpeg\<close> converts, the recogniser returns
  \<open>" ciao "\<close> after two seconds, the endpoint answers \<open>" sum "\<close> after three seconds, and
  files can be removed. The two files \<open>a.mp3\<close> and \<open>b.wav\<close> exist.
\<close>

definition example_env :: env where
  "example_env = \<lparr>
     tmp_dir = ''/tmp'',
     tmp_random = (\<lambda>n. replicate (Suc n) (CHR ''x'')),
     run_ffmpeg = (\<lambda>w src dst. (None, True)),
     run_asr = (\<lambda>w path hint. (Inr (Some '' ciao ''), 2)),
     post_generate = (\<lambda>w prompt. (Inr (JObject [(''response'', JString '' sum '')]), 3)),
     remove_error = (\<lambda>w path. None),
     format_seconds = (\<lambda>x. ''?'') \<rparr>"

definition example_world :: world where
  "example_world = \<lparr> disk = {''a.mp3'', ''b.wav''}, clock = 10, calls = [], tmp_seq = 0 \<rparr>"

section \<open>Language fallback\<close>

lemma get_text_it: "get_text ''it'' = texts_it"
  by (simp add: get_text_def TEXTS_def)

lemma get_text_en: "get_text ''en'' = texts_en"
  by (simp add: get_text_def TEXTS_def)

lemma get_text_other: "lang \<noteq> ''it'' \<Longrightarrow> lang \<noteq> ''en'' \<Longrightarrow> get_text lang = texts_it"
  by (simp add: get_text_def TEXTS_def LANG_DEFAULT_def)

text \<open>
  C10. For every language code other than \<open>"it"\<close> and \<open>"en"\<close> the whole text table
  (error messages, prompts and interface strings alike) is the table of the default
  language, Italian; the speech-recognition hint is \<open>"english"\<close> for every code other
  than \<open>"it"\<close>. An unknown interface code therefore gets Italian messages together with an
  English transcription hint.
\<close>

theorem unknown_language_fallback:
  "(lang \<noteq> ''it'' \<and> lang \<noteq> ''en'' \<longrightarrow>
      get_text lang = get_text ''it'' \<and>
      errors (get_text lang) = errors texts_it \<and>
      prompts (get_text lang) = prompts texts_it \<and>
      ui (get_text lang) = ui texts_it \<and>
      asr_language lang = ''english'') \<and>
   (lang \<noteq> ''it'' \<longrightarrow> asr_language lang = ''english'')"
  by (simp add: get_text_other get_text_it asr_language_def)

theorem unknown_language_fallback_witness:
  "''fr'' \<noteq> ''it'' \<and> ''fr'' \<noteq> ''en'' \<and>
   file_not_found (errors (get_text ''fr'')) = ''File non trovato.'' \<and>
   asr_language ''fr'' = ''english'' \<and>
   asr_language ''en'' = ''english''"
  using unknown_language_fallback [of "''fr''"] unknown_language_fallback [of "''en''"]
  by (simp add: get_text_it texts_it_def)

section \<open>The loop of the orchestrator\<close>

lemma run_files_acc:
  "run_files e s b lang w (acc @ acc') fs =
     (fst (run_files e s b lang w acc' fs), acc @ snd (run_files e s b lang w acc' fs))"
proof (induction fs arbitrary: w acc')
  case Nil
  show ?case by simp
next
  case (Cons f fs)
  obtain w' r where step: "process_file e s b lang w f = (w', r)"
    by (cases "process_file e s b lang w f")
  from Cons.IH [of w' "acc' @ [r]"] step show ?case by simp
qed

lemma run_files_fst_acc:
  "fst (run_files e s b lang w acc fs) = fst (run_files e s b lang w [] fs)"
  using run_files_acc [of e s b lang w acc "[]" fs] by simp

lemma run_files_snd_acc:
  "snd (run_files e s b lang w acc fs) = acc @ snd (run_files e s b lang w [] fs)"
  using run_files_acc [of e s b lang w acc "[]" fs] by simp

lemma run_files_length:
  "length (snd (run_files e s b lang w acc fs)) = length acc + length fs"
proof (induction fs arbitrary: w acc)
  case Nil
  show ?case by simp
next
  case (Cons f fs)
  obtain w' r where step: "process_file e s b lang w f = (w', r)"
    by (cases "process_file e s b lang w f")
  from Cons.IH [of w' "acc @ [r]"] step show ?case by simp
qed

lemma world_after_Nil: "world_after e s b lang w [] = w"
  by (simp add: world_after_def)

lemma world_after_Cons:
  "world_after e s b lang w (f # fs) =
     world_after e s b lang (fst (process_file e s b lang w f)) fs"
proof -
  obtain w' r where step: "process_file e s b lang w f = (w', r)"
    by (cases "process_file e s b lang w f")
  show ?thesis
    using step run_files_fst_acc [of e s b lang w' "[r]" fs]
    by (simp add: world_after_def)
qed

lemma run_files_Cons:
  "snd (run_files e s b lang w [] (f # fs)) =
     snd (process_file e s b lang w f) #
     snd (run_files e s b lang (fst (process_file e s b lang w f)) [] fs)"
proof -
  obtain w' r where step: "process_file e s b lang w f = (w', r)"
    by (cases "process_file e s b lang w f")
  show ?thesis
    using step run_files_snd_acc [of e s b lang w' "[r]" fs] by simp
qed

lemma run_files_nth:
  "i < length fs \<Longrightarrow>
   snd (run_files e s b lang w [] fs) ! i =
     snd (process_file e s b lang (world_after e s b lang w (take i fs)) (fs ! i))"
proof (induction fs arbitrary: w i)
  case Nil
  then show ?case by simp
next
  case (Cons f fs)
  show ?case
  proof (cases i)
    case 0
    then show ?thesis
      by (simp only: run_files_Cons nth_Cons_0 take_0 world_after_Nil)
  next
    case (Suc j)
    with Cons.prems have j: "j < length fs" by simp
    show ?thesis
      using Cons.IH [OF j, of "fst (process_file e s b lang w f)"] Suc
      by (simp only: run_files_Cons nth_Cons_Suc take_Suc_Cons world_after_Cons)
  qed
qed

lemma transcribe_many_results:
  "snd (snd (transcribe_many e w files s b lang)) =
     snd (run_files e s b lang w [] (paths_of files))"
proof (cases files)
  case None
  then show ?thesis by (simp add: transcribe_many_def paths_of_def)
next
  case (Some fs)
  then show ?thesis
    by (cases fs) (simp_all add: transcribe_many_def paths_of_def split: prod.splits)
qed

lemma transcribe_many_world:
  "fst (transcribe_many e w files s b lang) = world_after e s b lang w (paths_of files)"
proof (cases files)
  case None
  then show ?thesis by (simp add: transcribe_many_def paths_of_def world_after_def)
next
  case (Some fs)
  then show ?thesis
    by (cases fs)
       (simp_all add: transcribe_many_def paths_of_def world_after_def split: prod.splits)
qed

lemma transcribe_file_name:
  assumes "transcribe_file e w p s b lang (Some n) = (w', Inr item)" and "n \<noteq> []"
  shows "map_of item ''file'' = Some (PStr n)"
  using assms
  by (auto simp: transcribe_file_def Let_def split: prod.splits sum.splits if_splits)

lemma process_file_name:
  assumes "basename f \<noteq> []"
  shows "map_of (snd (process_file e s b lang w f)) ''file'' = Some (PStr (basename f))"
proof (cases "f = [] \<or> f \<notin> disk w")
  case True
  with assms show ?thesis
    by (auto simp: process_file_def Let_def basename_def)
next
  case False
  show ?thesis
  proof (cases "needs_wav_conversion f")
    case True
    obtain w1 c where conv: "convert_to_temp_wav e w f lang = (w1, c)"
      by (cases "convert_to_temp_wav e w f lang")
    show ?thesis
    proof (cases c)
      case (Inl exn)
      with conv True False show ?thesis
        by (simp add: process_file_def Let_def)
    next
      case (Inr tmp)
      obtain w2 r where tr: "transcribe_file e w1 tmp s b lang (Some (basename f)) = (w2, r)"
        by (cases "transcribe_file e w1 tmp s b lang (Some (basename f))")
      show ?thesis
      proof (cases r)
        case (Inl exn)
        with conv Inr tr True False show ?thesis
          by (simp add: process_file_def Let_def)
      next
        case (Inr item)
        with tr transcribe_file_name [OF _ assms] have "map_of item ''file'' = Some (PStr (basename f))"
          by blast
        with conv \<open>c = Inr tmp\<close> tr Inr True False show ?thesis
          by (simp add: process_file_def Let_def)
      qed
    qed
  next
    case nc: False
    obtain w2 r where tr: "transcribe_file e w f s b lang (Some (basename f)) = (w2, r)"
      by (cases "transcribe_file e w f s b lang (Some (basename f))")
    show ?thesis
    proof (cases r)
      case (Inl exn)
      with tr nc False show ?thesis
        by (simp add: process_file_def Let_def)
    next
      case (Inr item)
      with tr transcribe_file_name [OF _ assms] have "map_of item ''file'' = Some (PStr (basename f))"
        by blast
      with tr Inr nc False show ?thesis
        by (simp add: process_file_def Let_def)
    qed
  qed
qed

text \<open>
  C1. For every list of paths (or none), both flags and every language, the results of
  \<open>transcribe_many\<close> have one entry per path, in the order of the paths: the entry at
  position \<open>i\<close> is the result of the iteration on the path at position \<open>i\<close>, run in the
  state that the paths before it left behind, whatever happens to the other files; and
  it carries the base name of that path as its file name whenever that base name is not
  empty.
\<close>

theorem transcribe_many_one_result_per_path:
  "length (snd (snd (transcribe_many e w files s b lang))) = length (paths_of files) \<and>
   (\<forall>i < length (paths_of files).
      snd (snd (transcribe_many e w files s b lang)) ! i =
        snd (process_file e s b lang
               (world_after e s b lang w (take i (paths_of files))) (paths_of files ! i)) \<and>
      (basename (paths_of files ! i) \<noteq> [] \<longrightarrow>
         map_of (snd (snd (transcribe_many e w files s b lang)) ! i) ''file'' =
           Some (PStr (basename (paths_of files ! i)))))"
  by (simp add: transcribe_many_results run_files_length run_files_nth process_file_name)

theorem transcribe_many_one_result_per_path_witness:
  "(1::nat) < length (paths_of (Some [''a.mp3'', ''dir/zz''])) \<and>
   basename ''dir/zz'' \<noteq> [] \<and>
   length (snd (snd (transcribe_many example_env example_world
             (Some [''a.mp3'', ''dir/zz'']) True False ''it''))) = 2 \<and>
   map_of (snd (snd (transcribe_many example_env example_world
             (Some [''a.mp3'', ''dir/zz'']) True False ''it'')) ! 1) ''file'' =
     Some (PStr ''zz'')"
proof -
  let ?files = "Some [''a.mp3'', ''dir/zz'']"
  let ?results = "snd (snd (transcribe_many example_env example_world ?files True False ''it''))"
  note T = transcribe_many_one_result_per_path
    [of example_env example_world ?files True False "''it''"]
  have h: "(1::nat) < length (paths_of ?files)"
    by (simp add: paths_of_def)
  have b: "basename ''dir/zz'' \<noteq> []"
    by (simp add: basename_def)
  have p: "paths_of ?files ! 1 = ''dir/zz''"
    by (simp add: paths_of_def)
  from T have L: "length ?results = length (paths_of ?files)"
    by (rule conjunct1)
  from T h have "basename (paths_of ?files ! 1) \<noteq> [] \<longrightarrow>
      map_of (?results ! 1) ''file'' = Some (PStr (basename (paths_of ?files ! 1)))"
    by blast
  with b p have "map_of (?results ! 1) ''file'' = Some (PStr (basename ''dir/zz''))"
    by simp
  then have F: "map_of (?results ! 1) ''file'' = Some (PStr ''zz'')"
    by (simp add: basename_def)
  from L have L2: "length ?results = 2"
    by (simp add: paths_of_def)
  from h b L2 F show ?thesis by blast
qed

end
